theory Spec2Isabelle
  imports Main
begin

section \<open>Values, exceptions and HTTP traffic\<close>

text \<open>
  The gateway of \<^verbatim>\<open>src/main.py\<close> moves parsed JSON around: the token is
  whatever \<^verbatim>\<open>data.get("token")\<close> returns, bodies are dictionaries. Python's
  \<^verbatim>\<open>None\<close> is the JSON \<^verbatim>\<open>null\<close>, so it is the constructor \<open>JNull\<close>. A
  dictionary is an association list whose first binding of a key is the one looked up.
\<close>

datatype json =
    JNull
  | JBool bool
  | JNum int
  | JStr string
  | JArr "json list"
  | JObj "(string \<times> json) list"

text \<open>
  Exceptions are values. \<open>RequestException\<close> stands for the whole class
  \<^verbatim>\<open>requests.exceptions.RequestException\<close> (connection errors, timeouts, the
  \<^verbatim>\<open>HTTPError\<close> of \<^verbatim>\<open>raise_for_status\<close>, the \<^verbatim>\<open>JSONDecodeError\<close> of
  \<^verbatim>\<open>response.json()\<close>); \<open>HTTPException\<close> is FastAPI's, with its status code and
  its detail. A detail built by an f-string \<^verbatim>\<open>f"prefix: {str(e)}"\<close> is kept as the
  prefix and the exception that was interpolated.
\<close>

datatype py_exception =
    RequestException string
  | HTTPException int string "py_exception option"
  | AttributeError string
  | ValueError string
  | ValidationError string

datatype http_method = GET | POST | PUT | DELETE

text \<open>
  A URL \<^verbatim>\<open>f"{TOPTEX_BASE_URL}/orders/{order_number}"\<close> is kept in its parts: the
  base, the fixed path and the interpolated value if there is one. The Authorization
  header \<^verbatim>\<open>f"Bearer {token}"\<close> keeps the token that was interpolated.
\<close>

datatype url = Url string string "json option"

datatype header = Authorization_Bearer json | Content_Type string

record request =
  meth :: http_method
  target :: url
  headers :: "header list"
  params :: "(string \<times> json) list"
  json_body :: "json option"
  timeout :: nat

text \<open>
  What a call of \<^verbatim>\<open>requests.get/post/put/delete\<close> does: it raises a
  \<open>RequestException\<close> (no response: connection refused, timeout, DNS failure), or it
  returns a response with a status code and a body, which is JSON or not.
\<close>

record response =
  status_code :: int
  content :: "json option"

datatype outcome = Raises string | Returns response

section \<open>The environment and the mutable state\<close>

text \<open>
  \<open>env\<close> holds what no function of the module changes: the three module constants read
  from the process environment, the clock (the successive readings of
  \<^verbatim>\<open>datetime.now()\<close>, in microseconds), the upstream service (the outcome of the
  \<open>n\<close>-th HTTP call, given the request) and the two pydantic constructors the webhook
  handler calls, each giving the model's \<^verbatim>\<open>dict()\<close> or a validation error.
\<close>

record env =
  TOPTEX_API_KEY :: "string option"
  TOPTEX_BASE_URL :: string
  WEBHOOK_SECRET :: "string option"
  clock :: "nat \<Rightarrow> int"
  upstream :: "nat \<Rightarrow> request \<Rightarrow> outcome"
  Order_init :: "(string \<times> json) list \<Rightarrow> py_exception + json"
  UpdateOrder_init :: "(string \<times> json) list \<Rightarrow> py_exception + json"

text \<open>
  \<open>state\<close> is the global \<^verbatim>\<open>auth_manager\<close> (\<open>token\<close>, \<open>token_expiry\<close>) together
  with the trace of what the process did to the outside: how often the clock was read,
  the HTTP calls issued (oldest first) and the durations passed to \<^verbatim>\<open>time.sleep\<close>.
\<close>

record state =
  token :: json
  token_expiry :: "int option"
  ticks :: nat
  calls :: "request list"
  sleeps :: "int list"

type_synonym 'a prog = "state \<Rightarrow> (py_exception + 'a) \<times> state"

definition dict_get :: "(string \<times> json) list \<Rightarrow> string \<Rightarrow> json" where
  "dict_get d k = (case map_of d k of None \<Rightarrow> JNull | Some v \<Rightarrow> v)"

definition dict_get_default :: "(string \<times> json) list \<Rightarrow> string \<Rightarrow> json \<Rightarrow> json" where
  "dict_get_default d k dflt = (case map_of d k of None \<Rightarrow> dflt | Some v \<Rightarrow> v)"

text \<open>\<^verbatim>\<open>data.get(k)\<close> on a parsed body: only a dictionary has the method.\<close>

fun py_get :: "json \<Rightarrow> string \<Rightarrow> py_exception + json" where
  "py_get (JObj d) k = Inr (dict_get d k)"
| "py_get _ k = Inl (AttributeError ''get'')"

definition datetime_now :: "env \<Rightarrow> state \<Rightarrow> int \<times> state" where
  "datetime_now E s = (clock E (ticks s), s\<lparr>ticks := Suc (ticks s)\<rparr>)"

text \<open>
  Time is an integer number of microseconds, without bound. The source's
  \<^verbatim>\<open>datetime\<close> ends with the year 9999: in the last 24 hours before that,
  \<^verbatim>\<open>datetime.now() + timedelta(hours=24)\<close> raises \<^verbatim>\<open>OverflowError\<close>, in
  \<^verbatim>\<open>authenticate\<close> after the token has been stored. That corner is not modelled:
  what follows is about clocks that read earlier.
\<close>

definition timedelta_hours :: "int \<Rightarrow> int" where
  "timedelta_hours h = h * 3600000000"

definition requests_request :: "env \<Rightarrow> request \<Rightarrow> response prog" where
  "requests_request E rq s =
     ((case upstream E (length (calls s)) rq of
         Raises msg \<Rightarrow> Inl (RequestException msg)
       | Returns r \<Rightarrow> Inr r),
      s\<lparr>calls := calls s @ [rq]\<rparr>)"

definition raise_for_status :: "response \<Rightarrow> py_exception + unit" where
  "raise_for_status r =
     (if 400 \<le> status_code r \<and> status_code r < 600
      then Inl (RequestException ''HTTPError'') else Inr ())"

definition response_json :: "response \<Rightarrow> py_exception + json" where
  "response_json r =
     (case content r of
        None \<Rightarrow> Inl (RequestException ''JSONDecodeError'')
      | Some v \<Rightarrow> Inr v)"

definition time_sleep :: "int \<Rightarrow> unit prog" where
  "time_sleep d s =
     (if d < 0 then (Inl (ValueError ''sleep length must be non-negative''), s)
      else (Inr (), s\<lparr>sleeps := sleeps s @ [d]\<rparr>))"

section \<open>AuthenticationManager\<close>

definition init_state :: state where
  "init_state = \<lparr>token = JNull, token_expiry = None, ticks = 0, calls = [], sleeps = []\<rparr>"

definition is_token_valid :: "env \<Rightarrow> state \<Rightarrow> bool \<times> state" where
  "is_token_valid E s =
     (case token_expiry s of
        None \<Rightarrow> (False, s)
      | Some expiry \<Rightarrow>
          if token s = JNull then (False, s)
          else (case datetime_now E s of (t, s1) \<Rightarrow> (t < expiry, s1)))"

definition auth_request :: "env \<Rightarrow> request" where
  "auth_request E =
     \<lparr>meth = POST,
      target = Url (TOPTEX_BASE_URL E) ''/authenticate'' None,
      headers = [],
      params = [],
      json_body = Some (JObj [(''api_key'',
        (case TOPTEX_API_KEY E of None \<Rightarrow> JNull | Some k \<Rightarrow> JStr k))]),
      timeout = 30\<rparr>"

text \<open>
  The handler \<^verbatim>\<open>except requests.exceptions.RequestException as e\<close> of
  \<^verbatim>\<open>authenticate\<close>: any other exception passes through it.
\<close>

fun authenticate_except :: "py_exception \<Rightarrow> json prog" where
  "authenticate_except (RequestException m) s =
     (Inl (HTTPException 503 ''Authentication failed: '' (Some (RequestException m))), s)"
| "authenticate_except e s = (Inl e, s)"

definition authenticate :: "env \<Rightarrow> json prog" where
  "authenticate E s =
     (case requests_request E (auth_request E) s of
        (Inl e, s1) \<Rightarrow> authenticate_except e s1
      | (Inr resp, s1) \<Rightarrow>
          (case raise_for_status resp of
             Inl e \<Rightarrow> authenticate_except e s1
           | Inr _ \<Rightarrow>
               (case response_json resp of
                  Inl e \<Rightarrow> authenticate_except e s1
                | Inr data \<Rightarrow>
                    (case py_get data ''token'' of
                       Inl e \<Rightarrow> authenticate_except e s1
                     | Inr tok \<Rightarrow>
                         (case datetime_now E (s1\<lparr>token := tok\<rparr>) of
                            (t, s2) \<Rightarrow>
                              (Inr tok,
                               s2\<lparr>token_expiry := Some (t + timedelta_hours 24)\<rparr>))))))"

definition get_token :: "env \<Rightarrow> json prog" where
  "get_token E s =
     (case is_token_valid E s of
        (False, s1) \<Rightarrow> authenticate E s1
      | (True, s1) \<Rightarrow> (Inr (token s1), s1))"

text \<open>\<open>n\<close> consecutive calls of \<^verbatim>\<open>get_token\<close>, with the result of each.\<close>

fun get_token_times :: "env \<Rightarrow> nat \<Rightarrow> state \<Rightarrow> (py_exception + json) list \<times> state" where
  "get_token_times E 0 s = ([], s)"
| "get_token_times E (Suc n) s =
     (case get_token E s of
        (r, s1) \<Rightarrow> (case get_token_times E n s1 of (rs, s2) \<Rightarrow> (r # rs, s2)))"

section \<open>The retry decorator\<close>

fun is_RequestException :: "py_exception \<Rightarrow> bool" where
  "is_RequestException (RequestException m) = True"
| "is_RequestException e = False"

text \<open>
  The loop \<^verbatim>\<open>for attempt in range(max_retries)\<close> of \<^verbatim>\<open>wrapper\<close>:
  \<open>attempt\<close> is the loop variable and the fourth argument counts the iterations
  left. A \<open>RequestException\<close> of \<open>func\<close> is re-raised on the last attempt and is
  followed by \<^verbatim>\<open>time.sleep(backoff_factor * 2 ** attempt)\<close> otherwise; any other
  exception leaves the loop at once; when the range is used up the function falls off its
  end and returns \<^verbatim>\<open>None\<close>.

  The decorated functions are coroutines. The model runs the body of \<open>func\<close> where
  \<open>wrapper\<close> calls it; were it run where the coroutine is awaited, no exception
  of the body would reach the handler of \<open>wrapper\<close> at all, and every trace below in
  which \<open>wrapper\<close> handles nothing would be the same.
\<close>

fun wrapper_loop :: "int \<Rightarrow> int \<Rightarrow> json prog \<Rightarrow> nat \<Rightarrow> nat \<Rightarrow> json prog" where
  "wrapper_loop max_retries backoff_factor func attempt 0 s = (Inr JNull, s)"
| "wrapper_loop max_retries backoff_factor func attempt (Suc k) s =
     (case func s of
        (Inr v, s1) \<Rightarrow> (Inr v, s1)
      | (Inl e, s1) \<Rightarrow>
          if is_RequestException e then
            if int attempt = max_retries - 1 then (Inl e, s1)
            else (case time_sleep (backoff_factor * 2 ^ attempt) s1 of
                    (Inl e', s2) \<Rightarrow> (Inl e', s2)
                  | (Inr _, s2) \<Rightarrow>
                      wrapper_loop max_retries backoff_factor func (Suc attempt) k s2)
          else (Inl e, s1))"

definition retry_with_backoff :: "int \<Rightarrow> int \<Rightarrow> json prog \<Rightarrow> json prog" where
  "retry_with_backoff max_retries backoff_factor func =
     wrapper_loop max_retries backoff_factor func 0 (nat max_retries)"

section \<open>Outbound endpoints\<close>

definition get_toptex_headers :: "env \<Rightarrow> header list prog" where
  "get_toptex_headers E s =
     (case get_token E s of
        (Inl e, s1) \<Rightarrow> (Inl e, s1)
      | (Inr tok, s1) \<Rightarrow>
          (Inr [Authorization_Bearer tok, Content_Type ''application/json''], s1))"

text \<open>
  The handler of every endpoint:
  \<^verbatim>\<open>except requests.exceptions.RequestException as e: raise HTTPException(503, ...)\<close>.
\<close>

fun endpoint_except :: "py_exception \<Rightarrow> json prog" where
  "endpoint_except (RequestException m) s =
     (Inl (HTTPException 503 ''TopTex API error: '' (Some (RequestException m))), s)"
| "endpoint_except e s = (Inl e, s)"

text \<open>
  The fourteen product, order and customer endpoints share one body: inside a
  \<^verbatim>\<open>try\<close>, get the headers, issue one request with \<^verbatim>\<open>timeout=30\<close>, call
  \<^verbatim>\<open>raise_for_status\<close>, and return \<^verbatim>\<open>response.json()\<close> or, for the deletions, a
  fixed message. \<open>toptex_call\<close> is that body, given the method, the URL, the query
  parameters, the JSON body and what is returned from the response.
\<close>

definition toptex_call ::
  "env \<Rightarrow> http_method \<Rightarrow> url \<Rightarrow> (string \<times> json) list \<Rightarrow> json option \<Rightarrow>
   (response \<Rightarrow> py_exception + json) \<Rightarrow> json prog" where
  "toptex_call E m u ps body ret s =
     (case get_toptex_headers E s of
        (Inl e, s1) \<Rightarrow> endpoint_except e s1
      | (Inr hs, s1) \<Rightarrow>
          (case requests_request E
                  \<lparr>meth = m, target = u, headers = hs, params = ps,
                   json_body = body, timeout = 30\<rparr> s1 of
             (Inl e, s2) \<Rightarrow> endpoint_except e s2
           | (Inr resp, s2) \<Rightarrow>
               (case raise_for_status resp of
                  Inl e \<Rightarrow> endpoint_except e s2
                | Inr _ \<Rightarrow>
                    (case ret resp of
                       Inl e \<Rightarrow> endpoint_except e s2
                     | Inr v \<Rightarrow> (Inr v, s2)))))"

text \<open>An endpoint as the module exports it: the body under \<^verbatim>\<open>@retry_with_backoff()\<close>.\<close>

definition endpoint ::
  "env \<Rightarrow> http_method \<Rightarrow> url \<Rightarrow> (string \<times> json) list \<Rightarrow> json option \<Rightarrow>
   (response \<Rightarrow> py_exception + json) \<Rightarrow> json prog" where
  "endpoint E m u ps body ret = retry_with_backoff 3 1 (toptex_call E m u ps body ret)"

definition message :: "string \<Rightarrow> response \<Rightarrow> py_exception + json" where
  "message txt r = Inr (JObj [(''message'', JStr txt)])"

definition get_products :: "env \<Rightarrow> int \<Rightarrow> int \<Rightarrow> json prog" where
  "get_products E skip limit =
     endpoint E GET (Url (TOPTEX_BASE_URL E) ''/products'' None)
       [(''skip'', JNum skip), (''limit'', JNum limit)] None response_json"

definition get_product :: "env \<Rightarrow> string \<Rightarrow> json prog" where
  "get_product E sku =
     endpoint E GET (Url (TOPTEX_BASE_URL E) ''/products/'' (Some (JStr sku)))
       [] None response_json"

definition create_product :: "env \<Rightarrow> json \<Rightarrow> json prog" where
  "create_product E product =
     endpoint E POST (Url (TOPTEX_BASE_URL E) ''/products'' None)
       [] (Some product) response_json"

definition update_product :: "env \<Rightarrow> string \<Rightarrow> json \<Rightarrow> json prog" where
  "update_product E sku product =
     endpoint E PUT (Url (TOPTEX_BASE_URL E) ''/products/'' (Some (JStr sku)))
       [] (Some product) response_json"

definition delete_product :: "env \<Rightarrow> string \<Rightarrow> json prog" where
  "delete_product E sku =
     endpoint E DELETE (Url (TOPTEX_BASE_URL E) ''/products/'' (Some (JStr sku)))
       [] None (message ''Product deleted successfully'')"

text \<open>\<^verbatim>\<open>if status:\<close> holds for a string that is neither \<^verbatim>\<open>None\<close> nor empty.\<close>

definition get_orders :: "env \<Rightarrow> string option \<Rightarrow> int \<Rightarrow> int \<Rightarrow> json prog" where
  "get_orders E status skip limit =
     endpoint E GET (Url (TOPTEX_BASE_URL E) ''/orders'' None)
       ([(''skip'', JNum skip), (''limit'', JNum limit)] @
        (case status of
           None \<Rightarrow> []
         | Some st \<Rightarrow> if st = [] then [] else [(''status'', JStr st)]))
       None response_json"

definition get_order :: "env \<Rightarrow> string \<Rightarrow> json prog" where
  "get_order E order_number =
     endpoint E GET (Url (TOPTEX_BASE_URL E) ''/orders/'' (Some (JStr order_number)))
       [] None response_json"

definition create_order :: "env \<Rightarrow> json \<Rightarrow> json prog" where
  "create_order E order =
     endpoint E POST (Url (TOPTEX_BASE_URL E) ''/orders'' None)
       [] (Some order) response_json"

text \<open>
  \<^verbatim>\<open>update_order\<close> is also called by the webhook handler, with whatever
  \<^verbatim>\<open>payload.get("order_number")\<close> is, so its first argument is any value.
\<close>

definition update_order :: "env \<Rightarrow> json \<Rightarrow> json \<Rightarrow> json prog" where
  "update_order E order_number update =
     endpoint E PUT (Url (TOPTEX_BASE_URL E) ''/orders/'' (Some order_number))
       [] (Some update) response_json"

definition delete_order :: "env \<Rightarrow> string \<Rightarrow> json prog" where
  "delete_order E order_number =
     endpoint E DELETE (Url (TOPTEX_BASE_URL E) ''/orders/'' (Some (JStr order_number)))
       [] None (message ''Order cancelled successfully'')"

definition get_customers :: "env \<Rightarrow> int \<Rightarrow> int \<Rightarrow> json prog" where
  "get_customers E skip limit =
     endpoint E GET (Url (TOPTEX_BASE_URL E) ''/customers'' None)
       [(''skip'', JNum skip), (''limit'', JNum limit)] None response_json"

definition get_customer :: "env \<Rightarrow> string \<Rightarrow> json prog" where
  "get_customer E customer_id =
     endpoint E GET (Url (TOPTEX_BASE_URL E) ''/customers/'' (Some (JStr customer_id)))
       [] None response_json"

definition create_customer :: "env \<Rightarrow> json \<Rightarrow> json prog" where
  "create_customer E customer =
     endpoint E POST (Url (TOPTEX_BASE_URL E) ''/customers'' None)
       [] (Some customer) response_json"

definition update_customer :: "env \<Rightarrow> string \<Rightarrow> json \<Rightarrow> json prog" where
  "update_customer E customer_id customer =
     endpoint E PUT (Url (TOPTEX_BASE_URL E) ''/customers/'' (Some (JStr customer_id)))
       [] (Some customer) response_json"

definition delete_customer :: "env \<Rightarrow> string \<Rightarrow> json prog" where
  "delete_customer E customer_id =
     endpoint E DELETE (Url (TOPTEX_BASE_URL E) ''/customers/'' (Some (JStr customer_id)))
       [] None (message ''Customer deleted successfully'')"

section \<open>The webhook, the status routes and the startup hook\<close>

text \<open>
  An inbound request, as far as the handler reads it: its headers (names in lower case,
  as the framework looks them up) and its body, which is JSON or not.
\<close>

record webhook_request =
  wh_headers :: "string \<rightharpoonup> string"
  wh_json :: "json option"

text \<open>\<^verbatim>\<open>if WEBHOOK_SECRET:\<close> holds for a secret that is set and not empty.\<close>

definition verify_webhook_secret :: "env \<Rightarrow> webhook_request \<Rightarrow> py_exception + unit" where
  "verify_webhook_secret E req =
     (case WEBHOOK_SECRET E of
        None \<Rightarrow> Inr ()
      | Some secret \<Rightarrow>
          if secret = [] then Inr ()
          else if wh_headers req ''x-odoo-signature'' = Some secret then Inr ()
          else Inl (HTTPException 401 ''Unauthorized'' None))"

definition processed :: "json \<Rightarrow> json" where
  "processed result = JObj [(''status'', JStr ''processed''), (''result'', result)]"

text \<open>
  The \<^verbatim>\<open>try\<close> block of \<^verbatim>\<open>from_odoo\<close>. A body that is not JSON makes
  \<^verbatim>\<open>req.json()\<close> raise; a payload that is not a dictionary has no \<^verbatim>\<open>get\<close>.
\<close>

definition from_odoo_try :: "env \<Rightarrow> webhook_request \<Rightarrow> json prog" where
  "from_odoo_try E req s =
     (case wh_json req of
        None \<Rightarrow> (Inl (ValueError ''JSONDecodeError''), s)
      | Some (JObj d) \<Rightarrow>
          if dict_get d ''type'' = JStr ''order_created'' then
            (case Order_init E
                    [(''order_number'', dict_get d ''order_number''),
                     (''customer_id'', dict_get d ''customer_id''),
                     (''items'', dict_get_default d ''items'' (JArr [])),
                     (''total_price'', dict_get_default d ''total_price'' (JNum 0)),
                     (''shipping_address'', dict_get d ''shipping_address'')] of
               Inl e \<Rightarrow> (Inl e, s)
             | Inr order \<Rightarrow>
                 (case create_order E order s of
                    (Inl e, s1) \<Rightarrow> (Inl e, s1)
                  | (Inr result, s1) \<Rightarrow> (Inr (processed result), s1)))
          else if dict_get d ''type'' = JStr ''order_updated'' then
            (case UpdateOrder_init E
                    [(''status'', dict_get d ''status''),
                     (''tracking_number'', dict_get d ''tracking_number'')] of
               Inl e \<Rightarrow> (Inl e, s)
             | Inr update \<Rightarrow>
                 (case update_order E (dict_get d ''order_number'') update s of
                    (Inl e, s1) \<Rightarrow> (Inl e, s1)
                  | (Inr result, s1) \<Rightarrow> (Inr (processed result), s1)))
          else
            (Inr (JObj [(''status'', JStr ''unknown_type''),
                        (''webhook_type'', dict_get d ''type'')]), s)
      | Some _ \<Rightarrow> (Inl (AttributeError ''get''), s))"

text \<open>
  \<^verbatim>\<open>verify_webhook_secret\<close> is called before the \<^verbatim>\<open>try\<close>; the handler
  \<^verbatim>\<open>except Exception\<close> turns every exception of the block into a 400.
\<close>

definition from_odoo :: "env \<Rightarrow> webhook_request \<Rightarrow> json prog" where
  "from_odoo E req s =
     (case verify_webhook_secret E req of
        Inl e \<Rightarrow> (Inl e, s)
      | Inr _ \<Rightarrow>
          (case from_odoo_try E req s of
             (Inl e, s1) \<Rightarrow>
               (Inl (HTTPException 400 ''Error processing webhook: '' (Some e)), s1)
           | (Inr v, s1) \<Rightarrow> (Inr v, s1)))"

text \<open>
  \<^verbatim>\<open>auth_status\<close>; the expiry is written as its number of microseconds, where the
  source writes \<^verbatim>\<open>isoformat()\<close>.
\<close>

definition auth_status :: "env \<Rightarrow> json prog" where
  "auth_status E s =
     (case get_token E s of
        (Inl e, s1) \<Rightarrow> (Inl (HTTPException 503 ''Authentication error: '' (Some e)), s1)
      | (Inr tok, s1) \<Rightarrow>
          (case is_token_valid E s1 of
             (v, s2) \<Rightarrow>
               (Inr (JObj [(''status'', JStr ''authenticated''),
                           (''token_valid'', JBool v),
                           (''token_expiry'',
                              (case token_expiry s2 of None \<Rightarrow> JNull | Some t \<Rightarrow> JNum t))]),
                s2)))"

definition health_status :: "string \<Rightarrow> string \<Rightarrow> json" where
  "health_status st api = JObj [(''status'', JStr st), (''toptex_api'', JStr api)]"

text \<open>\<^verbatim>\<open>health_check\<close>: the bare \<^verbatim>\<open>except:\<close> handles every exception.\<close>

definition health_check :: "env \<Rightarrow> json prog" where
  "health_check E s =
     (case get_toptex_headers E s of
        (Inl e, s1) \<Rightarrow> (Inr (health_status ''degraded'' ''disconnected''), s1)
      | (Inr hs, s1) \<Rightarrow>
          (case requests_request E
                  \<lparr>meth = GET, target = Url (TOPTEX_BASE_URL E) ''/health'' None,
                   headers = hs, params = [], json_body = None, timeout = 10\<rparr> s1 of
             (Inl e, s2) \<Rightarrow> (Inr (health_status ''degraded'' ''disconnected''), s2)
           | (Inr resp, s2) \<Rightarrow>
               (Inr (health_status ''healthy''
                      (if status_code resp = 200 then ''connected'' else ''disconnected'')),
                s2)))"

definition startup_event :: "env \<Rightarrow> state \<Rightarrow> state" where
  "startup_event E s = snd (get_token E s)"

section \<open>Reachable states\<close>

text \<open>
  Everything that can touch the global \<^verbatim>\<open>auth_manager\<close>: its three methods, a call
  of any endpoint, the webhook, the two status routes and the startup hook. \<open>run\<close>
  performs a list of them from the state the module starts in.
\<close>

datatype action =
    Is_token_valid
  | Authenticate
  | Get_token
  | Call_endpoint http_method url "(string \<times> json) list" "json option"
      "response \<Rightarrow> py_exception + json"
  | From_odoo webhook_request
  | Auth_status
  | Health_check
  | Startup_event

fun step :: "env \<Rightarrow> action \<Rightarrow> state \<Rightarrow> state" where
  "step E Is_token_valid s = snd (is_token_valid E s)"
| "step E Authenticate s = snd (authenticate E s)"
| "step E Get_token s = snd (get_token E s)"
| "step E (Call_endpoint m u ps body ret) s = snd (endpoint E m u ps body ret s)"
| "step E (From_odoo req) s = snd (from_odoo E req s)"
| "step E Auth_status s = snd (auth_status E s)"
| "step E Health_check s = snd (health_check E s)"
| "step E Startup_event s = startup_event E s"

fun run :: "env \<Rightarrow> action list \<Rightarrow> state \<Rightarrow> state" where
  "run E [] s = s"
| "run E (a # as) s = run E as (step E a s)"

section \<open>Shorthands used in the statements\<close>

text \<open>The two 503 errors the module raises, and the first request of \<^verbatim>\<open>get_products\<close>.\<close>

definition auth_failed :: "string \<Rightarrow> py_exception" where
  "auth_failed m = HTTPException 503 ''Authentication failed: '' (Some (RequestException m))"

definition api_error :: "string \<Rightarrow> py_exception" where
  "api_error m = HTTPException 503 ''TopTex API error: '' (Some (RequestException m))"

definition products_request :: "env \<Rightarrow> json \<Rightarrow> int \<Rightarrow> int \<Rightarrow> request" where
  "products_request E tok skip limit =
     \<lparr>meth = GET, target = Url (TOPTEX_BASE_URL E) ''/products'' None,
      headers = [Authorization_Bearer tok, Content_Type ''application/json''],
      params = [(''skip'', JNum skip), (''limit'', JNum limit)],
      json_body = None, timeout = 30\<rparr>"

section \<open>Concrete environments\<close>

text \<open>
  An environment for running the model: the clock reads \<open>1000 * n\<close> at its \<open>n\<close>-th
  reading, the authentication endpoint always answers \<open>a\<close> and every other endpoint
  always answers \<open>d\<close>.
\<close>

definition demo_env :: "outcome \<Rightarrow> outcome \<Rightarrow> env" where
  "demo_env a d =
     \<lparr>TOPTEX_API_KEY = Some ''key'',
      TOPTEX_BASE_URL = ''https://api.toptex.io/v3'',
      WEBHOOK_SECRET = Some ''s3cret'',
      clock = (\<lambda>n. 1000 * int n),
      upstream = (\<lambda>n rq.
        if target rq = Url ''https://api.toptex.io/v3'' ''/authenticate'' None then a else d),
      Order_init = (\<lambda>kw. Inr (JObj kw)),
      UpdateOrder_init = (\<lambda>kw. Inr (JObj kw))\<rparr>"

definition reply :: "int \<Rightarrow> json \<Rightarrow> outcome" where
  "reply code v = Returns \<lparr>status_code = code, content = Some v\<rparr>"

definition token_reply :: outcome where
  "token_reply = reply 200 (JObj [(''token'', JStr ''tok-1'')])"

text \<open>Authentication works; every data request times out.\<close>

definition data_down :: env where
  "data_down = demo_env token_reply (Raises ''timed out'')"

text \<open>Authentication works; every data request is answered 404.\<close>

definition data_404 :: env where
  "data_404 = demo_env token_reply (reply 404 JNull)"

text \<open>The authentication endpoint refuses the connection.\<close>

definition auth_down :: env where
  "auth_down = demo_env (Raises ''connection refused'') token_reply"

text \<open>The authentication endpoint answers 503.\<close>

definition auth_503 :: env where
  "auth_503 = demo_env (reply 503 JNull) token_reply"

text \<open>The authentication endpoint answers 300 Multiple Choices, with a token in the body.\<close>

definition auth_300 :: env where
  "auth_300 = demo_env (reply 300 (JObj [(''token'', JStr ''tok-1'')])) token_reply"

text \<open>The authentication endpoint answers 200 with an object that has no token.\<close>

definition auth_no_token :: env where
  "auth_no_token = demo_env (reply 200 (JObj [])) token_reply"

text \<open>Everything works.\<close>

definition all_up :: env where
  "all_up = demo_env token_reply (reply 200 (JObj [(''items'', JArr [])]))"

text \<open>A state in which a token is held until the clock reads 5000.\<close>

definition held :: state where
  "held = \<lparr>token = JStr ''tok-0'', token_expiry = Some 5000, ticks = 0, calls = [], sleeps = []\<rparr>"

text \<open>A webhook call with a wrong signature, asking for an order to be created.\<close>

definition forged :: webhook_request where
  "forged =
     \<lparr>wh_headers = [''x-odoo-signature'' \<mapsto> ''guess''],
      wh_json = Some (JObj [(''type'', JStr ''order_created''),
                            (''order_number'', JStr ''SO-1''),
                            (''customer_id'', JStr ''C-1'')])\<rparr>"

text \<open>A function that always fails with a \<open>RequestException\<close>, after one HTTP call.\<close>

definition always_failing :: "request \<Rightarrow> json prog" where
  "always_failing rq s = (Inl (RequestException ''boom''), s\<lparr>calls := calls s @ [rq]\<rparr>)"

section \<open>The token cache\<close>

lemmas run_defs =
  get_products_def endpoint_def retry_with_backoff_def numeral_3_eq_3 toptex_call_def
  get_toptex_headers_def get_token_def is_token_valid_def authenticate_def
  requests_request_def raise_for_status_def response_json_def datetime_now_def
  timedelta_hours_def time_sleep_def auth_request_def products_request_def
  demo_env_def reply_def token_reply_def init_state_def held_def dict_get_def
  data_down_def data_404_def auth_down_def auth_503_def auth_300_def auth_no_token_def
  all_up_def auth_failed_def api_error_def

text \<open>
  C4. \<^verbatim>\<open>is_token_valid\<close> answers true exactly when a token is held, an expiry is
  held and the clock, read at the call, is strictly before the expiry; it leaves the
  token, the expiry, the HTTP trace and the sleeps as they were.
\<close>

theorem is_token_valid_iff:
  "fst (is_token_valid E s) =
     (token s \<noteq> JNull \<and> (\<exists>expiry. token_expiry s = Some expiry \<and> clock E (ticks s) < expiry))
   \<and> token (snd (is_token_valid E s)) = token s
   \<and> token_expiry (snd (is_token_valid E s)) = token_expiry s
   \<and> calls (snd (is_token_valid E s)) = calls s
   \<and> sleeps (snd (is_token_valid E s)) = sleeps s"
  by (simp add: is_token_valid_def datetime_now_def split: option.splits)

lemma is_token_valid_False:
  "\<not> fst (is_token_valid E s) \<Longrightarrow>
     token (snd (is_token_valid E s)) = token s
     \<and> token_expiry (snd (is_token_valid E s)) = token_expiry s
     \<and> calls (snd (is_token_valid E s)) = calls s
     \<and> sleeps (snd (is_token_valid E s)) = sleeps s"
  by (simp add: is_token_valid_def datetime_now_def split: option.splits)

text \<open>What \<^verbatim>\<open>authenticate\<close> does, by the answer of the upstream service.\<close>

lemma authenticate_cases:
  "authenticate E s =
     (case upstream E (length (calls s)) (auth_request E) of
        Raises m \<Rightarrow> (Inl (auth_failed m), s\<lparr>calls := calls s @ [auth_request E]\<rparr>)
      | Returns r \<Rightarrow>
          if 400 \<le> status_code r \<and> status_code r < 600
          then (Inl (auth_failed ''HTTPError''), s\<lparr>calls := calls s @ [auth_request E]\<rparr>)
          else (case content r of
                  None \<Rightarrow> (Inl (auth_failed ''JSONDecodeError''),
                            s\<lparr>calls := calls s @ [auth_request E]\<rparr>)
                | Some (JObj d) \<Rightarrow>
                    (Inr (dict_get d ''token''),
                     s\<lparr>calls := calls s @ [auth_request E], token := dict_get d ''token'',
                       ticks := Suc (ticks s),
                       token_expiry := Some (clock E (ticks s) + 86400000000)\<rparr>)
                | Some _ \<Rightarrow> (Inl (AttributeError ''get''),
                              s\<lparr>calls := calls s @ [auth_request E]\<rparr>)))"
  by (simp add: authenticate_def requests_request_def raise_for_status_def response_json_def
      datetime_now_def timedelta_hours_def auth_failed_def
      split: outcome.splits option.splits json.splits)

lemma authenticate_calls: "calls (snd (authenticate E s)) = calls s @ [auth_request E]"
  by (simp add: authenticate_cases split: outcome.splits option.splits json.splits)

lemma authenticate_sleeps: "sleeps (snd (authenticate E s)) = sleeps s"
  by (simp add: authenticate_cases split: outcome.splits option.splits json.splits)

lemma authenticate_not_RequestException:
  "fst (authenticate E s) = Inl e \<Longrightarrow> \<not> is_RequestException e"
  by (auto simp add: authenticate_cases auth_failed_def
      split: outcome.splits option.splits json.splits if_splits)

lemma authenticate_Inl_frame:
  "fst (authenticate E s) = Inl e \<Longrightarrow>
     snd (authenticate E s) = s\<lparr>calls := calls s @ [auth_request E]\<rparr>"
  by (auto simp add: authenticate_cases split: outcome.splits option.splits json.splits if_splits)

lemma get_token_valid:
  assumes "token s \<noteq> JNull" "token_expiry s = Some e" "clock E (ticks s) < e"
  shows "get_token E s = (Inr (token s), s\<lparr>ticks := Suc (ticks s)\<rparr>)"
  using assms by (simp add: get_token_def is_token_valid_def datetime_now_def)

lemma get_token_invalid:
  "\<not> fst (is_token_valid E s) \<Longrightarrow> get_token E s = authenticate E (snd (is_token_valid E s))"
  by (cases "is_token_valid E s") (simp add: get_token_def)

lemma get_token_valid_snd:
  "fst (is_token_valid E s) \<Longrightarrow> get_token E s = (Inr (token s), snd (is_token_valid E s))"
  by (cases "is_token_valid E s")
     (auto simp add: get_token_def is_token_valid_def datetime_now_def
        split: option.splits if_splits)

text \<open>
  Calls of \<^verbatim>\<open>get_token\<close> one after the other, each finding the clock before the
  expiry: by induction on their number, the state generalised.
\<close>

lemma get_token_times_valid:
  "token s \<noteq> JNull \<Longrightarrow> token_expiry s = Some e \<Longrightarrow> (\<forall>i<n. clock E (ticks s + i) < e) \<Longrightarrow>
   get_token_times E n s = (replicate n (Inr (token s)), s\<lparr>ticks := ticks s + n\<rparr>)"
proof (induction n arbitrary: s)
  case 0
  then show ?case by simp
next
  case (Suc n)
  have now: "clock E (ticks s) < e"
    using Suc.prems(3) [rule_format, of 0] by simp
  let ?s1 = "s\<lparr>ticks := Suc (ticks s)\<rparr>"
  have first: "get_token E s = (Inr (token s), ?s1)"
    using Suc.prems(1,2) now by (rule get_token_valid)
  have later: "\<forall>i<n. clock E (ticks ?s1 + i) < e"
  proof (intro allI impI)
    fix i assume "i < n"
    then have "Suc i < Suc n" by simp
    then have "clock E (ticks s + Suc i) < e"
      using Suc.prems(3) by blast
    then show "clock E (ticks ?s1 + i) < e" by simp
  qed
  have "get_token_times E n ?s1 = (replicate n (Inr (token ?s1)), ?s1\<lparr>ticks := ticks ?s1 + n\<rparr>)"
    using Suc.prems(1,2) later by (intro Suc.IH) simp_all
  then show ?case using first by simp
qed

text \<open>
  C3. While a token is held and every reading of the clock is strictly before the expiry,
  any number of calls of \<^verbatim>\<open>get_token\<close> one after the other return the stored token
  each time and issue no HTTP call (only the clock is read). When \<^verbatim>\<open>is_token_valid\<close>
  answers false, \<^verbatim>\<open>get_token\<close> is \<^verbatim>\<open>authenticate\<close>: it returns what that returns,
  after its one call of the authentication endpoint.
\<close>

theorem get_token_cached_or_authenticates:
  "(token s \<noteq> JNull \<and> token_expiry s = Some e \<and> (\<forall>i<n. clock E (ticks s + i) < e) \<longrightarrow>
      get_token_times E n s = (replicate n (Inr (token s)), s\<lparr>ticks := ticks s + n\<rparr>)
      \<and> calls (snd (get_token_times E n s)) = calls s)
   \<and> (\<not> fst (is_token_valid E s) \<longrightarrow>
        get_token E s = authenticate E (snd (is_token_valid E s))
        \<and> calls (snd (get_token E s)) = calls s @ [auth_request E])"
proof (intro conjI impI)
  assume h: "token s \<noteq> JNull \<and> token_expiry s = Some e \<and> (\<forall>i<n. clock E (ticks s + i) < e)"
  then show r: "get_token_times E n s = (replicate n (Inr (token s)), s\<lparr>ticks := ticks s + n\<rparr>)"
    by (simp add: get_token_times_valid)
  show "calls (snd (get_token_times E n s)) = calls s"
    by (simp add: r)
next
  assume h: "\<not> fst (is_token_valid E s)"
  then show r: "get_token E s = authenticate E (snd (is_token_valid E s))"
    by (rule get_token_invalid)
  show "calls (snd (get_token E s)) = calls s @ [auth_request E]"
    using is_token_valid_False [OF h] by (simp add: r authenticate_calls)
qed

text \<open>
  At concrete inputs: with the whole upstream service down, three calls in the state
  \<open>held\<close> return the held token three times and leave the HTTP trace empty; in the
  initial state \<^verbatim>\<open>get_token\<close> is \<^verbatim>\<open>authenticate\<close>.
\<close>

theorem get_token_cached_or_authenticates_witness:
  "get_token_times (demo_env (Raises ''down'') (Raises ''down'')) 3 held =
     (replicate 3 (Inr (JStr ''tok-0'')), held\<lparr>ticks := 3\<rparr>)
   \<and> calls (snd (get_token_times (demo_env (Raises ''down'') (Raises ''down'')) 3 held)) = []
   \<and> get_token all_up init_state = authenticate all_up init_state
   \<and> calls (snd (get_token all_up init_state)) = [auth_request all_up]"
proof -
  have "\<forall>i<3. clock (demo_env (Raises ''down'') (Raises ''down'')) (ticks held + i) < 5000"
    by (simp add: demo_env_def held_def)
  then have a: "token held \<noteq> JNull \<and> token_expiry held = Some 5000
      \<and> (\<forall>i<3. clock (demo_env (Raises ''down'') (Raises ''down'')) (ticks held + i) < 5000)"
    by (simp add: held_def)
  have b: "\<not> fst (is_token_valid all_up init_state)"
    by (simp add: is_token_valid_def init_state_def)
  have c: "snd (is_token_valid all_up init_state) = init_state"
    by (simp add: is_token_valid_def init_state_def)
  have t1: "get_token_times (demo_env (Raises ''down'') (Raises ''down'')) 3 held =
       (replicate 3 (Inr (token held)), held\<lparr>ticks := ticks held + 3\<rparr>)
     \<and> calls (snd (get_token_times (demo_env (Raises ''down'') (Raises ''down'')) 3 held)) =
       calls held"
    using get_token_cached_or_authenticates
            [of held 5000 3 "demo_env (Raises ''down'') (Raises ''down'')"] a
    by blast
  have t2: "get_token all_up init_state =
       authenticate all_up (snd (is_token_valid all_up init_state))
     \<and> calls (snd (get_token all_up init_state)) = calls init_state @ [auth_request all_up]"
    using get_token_cached_or_authenticates [of init_state 0 0 all_up] b
    by blast
  have d: "token held = JStr ''tok-0''" "ticks held = 0" "calls held = []"
    by (simp_all add: held_def)
  have e: "calls init_state = []" by (simp add: init_state_def)
  have t1': "get_token_times (demo_env (Raises ''down'') (Raises ''down'')) 3 held =
       (replicate 3 (Inr (JStr ''tok-0'')), held\<lparr>ticks := 3\<rparr>)
     \<and> calls (snd (get_token_times (demo_env (Raises ''down'') (Raises ''down'')) 3 held)) = []"
    using t1 by (simp add: d)
  have t2': "get_token all_up init_state = authenticate all_up init_state
     \<and> calls (snd (get_token all_up init_state)) = [auth_request all_up]"
    by (rule t2 [unfolded c e append_Nil])
  show ?thesis
    using t1' t2' by blast
qed

text \<open>
  C6. A call of \<^verbatim>\<open>authenticate\<close> that returns has issued exactly one HTTP call, the
  POST to the authentication endpoint; the answer was a JSON object; what is returned
  and stored is \<^verbatim>\<open>data.get("token")\<close>; the expiry stored is the clock as read in the
  call plus 24 hours, which is strictly after that reading; whatever token and expiry
  were held before are overwritten.
\<close>

theorem authenticate_success:
  assumes "authenticate E s = (Inr tok, s')"
  shows "(\<exists>r d. upstream E (length (calls s)) (auth_request E) = Returns r
            \<and> content r = Some (JObj d) \<and> tok = dict_get d ''token'')
         \<and> s' = s\<lparr>calls := calls s @ [auth_request E], token := tok, ticks := Suc (ticks s),
                   token_expiry := Some (clock E (ticks s) + timedelta_hours 24)\<rparr>
         \<and> (\<exists>expiry. token_expiry s' = Some expiry \<and> clock E (ticks s) < expiry)"
  using assms
  by (auto simp add: authenticate_cases timedelta_hours_def
      split: outcome.splits option.splits json.splits if_splits)

text \<open>
  At a concrete input: in the state \<open>held\<close> (token \<open>tok-0\<close>, expiry 5000, clock at 0) a
  successful call stores \<open>tok-1\<close> and the expiry 86400000000.
\<close>

theorem authenticate_success_witness:
  "authenticate all_up held =
     (Inr (JStr ''tok-1''),
      \<lparr>token = JStr ''tok-1'', token_expiry = Some 86400000000, ticks = 1,
       calls = [auth_request all_up], sleeps = []\<rparr>)
   \<and> \<lparr>token = JStr ''tok-1'', token_expiry = Some 86400000000, ticks = 1,
       calls = [auth_request all_up], sleeps = []\<rparr> =
     held\<lparr>calls := calls held @ [auth_request all_up], token := JStr ''tok-1'',
          ticks := Suc (ticks held),
          token_expiry := Some (clock all_up (ticks held) + timedelta_hours 24)\<rparr>
   \<and> (\<exists>expiry. Some 86400000000 = Some expiry \<and> clock all_up (ticks held) < expiry)"
proof -
  have r: "authenticate all_up held =
     (Inr (JStr ''tok-1''),
      \<lparr>token = JStr ''tok-1'', token_expiry = Some 86400000000, ticks = 1,
       calls = [auth_request all_up], sleeps = []\<rparr>)"
    by (simp add: run_defs)
  show ?thesis
    using authenticate_success [OF r] r by simp
qed

text \<open>
  C5, as the code has it. When the call of the authentication endpoint raises (network
  failure, timeout) or is answered with a status from 400 to 599, \<^verbatim>\<open>authenticate\<close>
  raises \<^verbatim>\<open>HTTPException(503, "Authentication failed: ...")\<close> and the token and the
  expiry are what they were. The statuses are those for which \<^verbatim>\<open>raise_for_status\<close>
  raises; an answer outside 200..299 and outside 400..599 is not among them.
\<close>

theorem authenticate_failure:
  assumes "upstream E (length (calls s)) (auth_request E) = Raises m
           \<or> (\<exists>r. upstream E (length (calls s)) (auth_request E) = Returns r
                   \<and> 400 \<le> status_code r \<and> status_code r < 600)"
  shows "(\<exists>m'. fst (authenticate E s) =
            Inl (HTTPException 503 ''Authentication failed: '' (Some (RequestException m'))))
         \<and> token (snd (authenticate E s)) = token s
         \<and> token_expiry (snd (authenticate E s)) = token_expiry s"
  using assms by (auto simp add: authenticate_cases auth_failed_def)

text \<open>
  At concrete inputs: the connection is refused, or the answer is 503, while \<open>tok-0\<close>
  is held.
\<close>

theorem authenticate_failure_witness:
  "upstream auth_down (length (calls held)) (auth_request auth_down) = Raises ''connection refused''
   \<and> (\<exists>m'. fst (authenticate auth_down held) =
            Inl (HTTPException 503 ''Authentication failed: '' (Some (RequestException m'))))
   \<and> token (snd (authenticate auth_down held)) = JStr ''tok-0''
   \<and> token_expiry (snd (authenticate auth_down held)) = Some 5000
   \<and> upstream auth_503 (length (calls held)) (auth_request auth_503) =
        Returns \<lparr>status_code = 503, content = Some JNull\<rparr>
   \<and> (\<exists>m'. fst (authenticate auth_503 held) =
            Inl (HTTPException 503 ''Authentication failed: '' (Some (RequestException m'))))
   \<and> token (snd (authenticate auth_503 held)) = JStr ''tok-0''
   \<and> token_expiry (snd (authenticate auth_503 held)) = Some 5000"
proof -
  have a: "upstream auth_down (length (calls held)) (auth_request auth_down) =
      Raises ''connection refused''"
    by (simp add: auth_down_def demo_env_def auth_request_def)
  have b: "upstream auth_503 (length (calls held)) (auth_request auth_503) =
      Returns \<lparr>status_code = 503, content = Some JNull\<rparr>"
    by (simp add: auth_503_def demo_env_def auth_request_def reply_def)
  have b': "\<exists>r. upstream auth_503 (length (calls held)) (auth_request auth_503) = Returns r
      \<and> 400 \<le> status_code r \<and> status_code r < 600"
    by (simp add: b)
  have h: "token held = JStr ''tok-0''" "token_expiry held = Some 5000"
    by (simp_all add: held_def)
  show ?thesis
    using authenticate_failure [of auth_down held "''connection refused''", OF disjI1, OF a]
          authenticate_failure [of auth_503 held "''''", OF disjI2, OF b'] a b
    by (simp only: h simp_thms)
qed

text \<open>
  The sentence of C5 about every answer that is not 2xx fails for an answer that
  \<^verbatim>\<open>raise_for_status\<close> lets through: the authentication endpoint answers 300 with a
  token in the body while \<open>tok-0\<close> is held; \<^verbatim>\<open>authenticate\<close> returns the new token
  and overwrites both fields.
\<close>

theorem authenticate_300_counterexample:
  "upstream auth_300 (length (calls held)) (auth_request auth_300)
     = Returns \<lparr>status_code = 300, content = Some (JObj [(''token'', JStr ''tok-1'')])\<rparr>
   \<and> fst (authenticate auth_300 held) = Inr (JStr ''tok-1'')
   \<and> token held = JStr ''tok-0''
   \<and> token (snd (authenticate auth_300 held)) = JStr ''tok-1''
   \<and> token_expiry held = Some 5000
   \<and> token_expiry (snd (authenticate auth_300 held)) = Some 86400000000"
  by (simp add: run_defs)

section \<open>Endpoints under the retry decorator\<close>

lemma get_token_sleeps: "sleeps (snd (get_token E s)) = sleeps s"
proof (cases "fst (is_token_valid E s)")
  case True
  then show ?thesis
    by (simp add: get_token_valid_snd is_token_valid_def datetime_now_def split: option.splits)
next
  case False
  then show ?thesis
    by (simp add: get_token_invalid authenticate_sleeps is_token_valid_False)
qed

text \<open>
  A failing \<^verbatim>\<open>get_token\<close> is a failing \<^verbatim>\<open>authenticate\<close>: the exception is not a
  \<open>RequestException\<close>, and the state differs from the one before by the one HTTP call.
\<close>

lemma get_token_error:
  assumes "fst (get_token E s) = Inl e"
  shows "\<not> is_RequestException e"
    and "\<not> fst (is_token_valid E s)"
    and "snd (get_token E s) = (snd (is_token_valid E s))\<lparr>calls := calls s @ [auth_request E]\<rparr>"
proof -
  show invalid: "\<not> fst (is_token_valid E s)"
    using assms by (auto simp add: get_token_valid_snd)
  then have eq: "get_token E s = authenticate E (snd (is_token_valid E s))"
    by (rule get_token_invalid)
  show "\<not> is_RequestException e"
    using assms eq authenticate_not_RequestException by simp
  show "snd (get_token E s) = (snd (is_token_valid E s))\<lparr>calls := calls s @ [auth_request E]\<rparr>"
    using assms eq authenticate_Inl_frame [of E "snd (is_token_valid E s)" e]
      is_token_valid_False [OF invalid] by simp
qed

lemma get_toptex_headers_snd: "snd (get_toptex_headers E s) = snd (get_token E s)"
  by (simp add: get_toptex_headers_def split: prod.splits sum.splits)

lemma get_toptex_headers_error:
  "get_toptex_headers E s = (Inl e, s1) \<Longrightarrow> get_token E s = (Inl e, s1)"
  by (auto simp add: get_toptex_headers_def split: prod.splits sum.splits)

lemma endpoint_except_result:
  "\<exists>e'. endpoint_except e s = (Inl e', s) \<and> \<not> is_RequestException e'"
  by (cases e) simp_all

lemma endpoint_except_passes:
  "\<not> is_RequestException e \<Longrightarrow> endpoint_except e s = (Inl e, s)"
  by (cases e) simp_all

lemma endpoint_except_snd: "snd (endpoint_except e s) = s"
  by (cases e) simp_all

text \<open>
  No \<open>RequestException\<close> leaves the body of an endpoint: the handler of the body turns
  each one into an \<open>HTTPException\<close>.
\<close>

lemma toptex_call_not_RequestException:
  "fst (toptex_call E m u ps body ret s) = Inl e \<Longrightarrow> \<not> is_RequestException e"
proof -
  have ex: "\<And>e0 s0. fst (endpoint_except e0 s0) = Inl e \<Longrightarrow> \<not> is_RequestException e"
  proof -
    fix e0 s0
    assume a: "fst (endpoint_except e0 s0) = Inl e"
    obtain e' where "endpoint_except e0 s0 = (Inl e', s0)" "\<not> is_RequestException e'"
      using endpoint_except_result by blast
    with a show "\<not> is_RequestException e" by simp
  qed
  assume "fst (toptex_call E m u ps body ret s) = Inl e"
  then show ?thesis
    by (auto simp add: toptex_call_def dest: ex split: prod.splits sum.splits)
qed

text \<open>
  So the loop of the decorator ends in its first iteration: a call of an endpoint is one
  run of its body.
\<close>

lemma endpoint_runs_body_once:
  "endpoint E m u ps body ret s = toptex_call E m u ps body ret s"
proof (cases "toptex_call E m u ps body ret s")
  case (Pair r s1)
  show ?thesis
  proof (cases r)
    case (Inl e)
    with Pair have "\<not> is_RequestException e"
      using toptex_call_not_RequestException [of E m u ps body ret s e] by simp
    with Pair Inl show ?thesis
      by (simp add: endpoint_def retry_with_backoff_def numeral_3_eq_3)
  next
    case (Inr v)
    with Pair show ?thesis
      by (simp add: endpoint_def retry_with_backoff_def numeral_3_eq_3)
  qed
qed

lemma toptex_call_headers_error:
  assumes "get_toptex_headers E s = (Inl e, s1)"
  shows "toptex_call E m u ps body ret s = (Inl e, s1)"
proof -
  have "fst (get_token E s) = Inl e"
    using get_toptex_headers_error [OF assms] by simp
  then have "\<not> is_RequestException e" by (rule get_token_error(1))
  then show ?thesis
    using assms by (simp add: toptex_call_def endpoint_except_passes)
qed

lemma toptex_call_headers_ok:
  assumes "get_toptex_headers E s = (Inr hs, s1)"
  shows "toptex_call E m u ps body ret s =
     (case upstream E (length (calls s1))
             \<lparr>meth = m, target = u, headers = hs, params = ps, json_body = body, timeout = 30\<rparr> of
        Raises msg \<Rightarrow>
          (Inl (api_error msg),
           s1\<lparr>calls := calls s1 @
             [\<lparr>meth = m, target = u, headers = hs, params = ps, json_body = body, timeout = 30\<rparr>]\<rparr>)
      | Returns r \<Rightarrow>
          if 400 \<le> status_code r \<and> status_code r < 600
          then (Inl (api_error ''HTTPError''),
           s1\<lparr>calls := calls s1 @
             [\<lparr>meth = m, target = u, headers = hs, params = ps, json_body = body, timeout = 30\<rparr>]\<rparr>)
          else (case ret r of
                  Inl e \<Rightarrow> endpoint_except e
                    (s1\<lparr>calls := calls s1 @
             [\<lparr>meth = m, target = u, headers = hs, params = ps, json_body = body, timeout = 30\<rparr>]\<rparr>)
                | Inr v \<Rightarrow> (Inr v,
           s1\<lparr>calls := calls s1 @
             [\<lparr>meth = m, target = u, headers = hs, params = ps, json_body = body, timeout = 30\<rparr>]\<rparr>)))"
  using assms
  by (simp add: toptex_call_def requests_request_def raise_for_status_def api_error_def
      split: outcome.splits sum.splits)

lemma toptex_call_credential:
  "token (snd (toptex_call E m u ps body ret s)) = token (snd (get_token E s))"
  "token_expiry (snd (toptex_call E m u ps body ret s)) = token_expiry (snd (get_token E s))"
  "sleeps (snd (toptex_call E m u ps body ret s)) = sleeps s"
proof -
  obtain r s1 where h: "get_toptex_headers E s = (r, s1)" by (cases "get_toptex_headers E s")
  then have s1: "s1 = snd (get_token E s)"
    using get_toptex_headers_snd [of E s] by simp
  have "token (snd (toptex_call E m u ps body ret s)) = token s1
      \<and> token_expiry (snd (toptex_call E m u ps body ret s)) = token_expiry s1
      \<and> sleeps (snd (toptex_call E m u ps body ret s)) = sleeps s1"
  proof (cases r)
    case (Inl e)
    then show ?thesis using h by (simp add: toptex_call_headers_error)
  next
    case (Inr hs)
    then show ?thesis using h
      by (simp add: toptex_call_headers_ok endpoint_except_snd split: outcome.splits sum.splits)
  qed
  then show "token (snd (toptex_call E m u ps body ret s)) = token (snd (get_token E s))"
    "token_expiry (snd (toptex_call E m u ps body ret s)) = token_expiry (snd (get_token E s))"
    "sleeps (snd (toptex_call E m u ps body ret s)) = sleeps s"
    using s1 by (simp_all add: get_token_sleeps)
qed

text \<open>
  C1, at an input where the code does not do it. Authentication works and every request
  for the products times out, so each attempt would fail with a \<open>RequestException\<close>.
  \<^verbatim>\<open>get_products\<close>, decorated with the defaults \<^verbatim>\<open>max_retries=3\<close> and
  \<^verbatim>\<open>backoff_factor=1\<close>, ends with the 503 of its own handler after one request for
  the products, and nothing was slept: three requests and the sleeps 1 and 2 are what
  the decorator's policy gives.
\<close>

theorem get_products_gives_up_after_one_attempt:
  "fst (get_products data_down 0 50 init_state) =
     Inl (HTTPException 503 ''TopTex API error: '' (Some (RequestException ''timed out'')))
   \<and> calls (snd (get_products data_down 0 50 init_state)) =
     [auth_request data_down, products_request data_down (JStr ''tok-1'') 0 50]
   \<and> sleeps (snd (get_products data_down 0 50 init_state)) = []"
  by (simp add: run_defs)

text \<open>
  C2. The headers were obtained and the one request of an endpoint is answered with a
  status from 400 to 499 (401 included, the code makes no difference): the call ends
  with \<^verbatim>\<open>HTTPException(503, "TopTex API error: ...")\<close>, that request is the only one
  added to the HTTP trace, and nothing was slept. This holds of each of the fourteen
  endpoints, whatever its method, URL, parameters and body.
\<close>

theorem endpoint_client_error_single_attempt:
  assumes "get_toptex_headers E s = (Inr hs, s1)"
    and "upstream E (length (calls s1))
           \<lparr>meth = m, target = u, headers = hs, params = ps, json_body = body, timeout = 30\<rparr>
         = Returns r"
    and "400 \<le> status_code r" and "status_code r < 500"
  shows "endpoint E m u ps body ret s =
           (Inl (HTTPException 503 ''TopTex API error: '' (Some (RequestException ''HTTPError''))),
            s1\<lparr>calls := calls s1 @
              [\<lparr>meth = m, target = u, headers = hs, params = ps, json_body = body,
                timeout = 30\<rparr>]\<rparr>)
         \<and> sleeps s1 = sleeps s"
proof -
  have "sleeps s1 = sleeps s"
    using assms(1) get_toptex_headers_snd [of E s] get_token_sleeps [of E s] by simp
  then show ?thesis
    using assms(2-4)
    by (simp add: endpoint_runs_body_once toptex_call_headers_ok [OF assms(1)] api_error_def)
qed

text \<open>
  At a concrete input: every data request is answered 404; \<^verbatim>\<open>get_products\<close> from the
  initial state authenticates, asks once and raises the 503.
\<close>

theorem endpoint_client_error_single_attempt_witness:
  "get_toptex_headers data_404 init_state =
     (Inr [Authorization_Bearer (JStr ''tok-1''), Content_Type ''application/json''],
      \<lparr>token = JStr ''tok-1'', token_expiry = Some 86400000000, ticks = 1,
       calls = [auth_request data_404], sleeps = []\<rparr>)
   \<and> upstream data_404 1 (products_request data_404 (JStr ''tok-1'') 0 50) =
       Returns \<lparr>status_code = 404, content = Some JNull\<rparr>
   \<and> get_products data_404 0 50 init_state =
     (Inl (HTTPException 503 ''TopTex API error: '' (Some (RequestException ''HTTPError''))),
      \<lparr>token = JStr ''tok-1'', token_expiry = Some 86400000000, ticks = 1,
       calls = [auth_request data_404, products_request data_404 (JStr ''tok-1'') 0 50],
       sleeps = []\<rparr>)"
proof -
  let ?s1 = "\<lparr>token = JStr ''tok-1'', token_expiry = Some 86400000000, ticks = 1,
       calls = [auth_request data_404], sleeps = []\<rparr>"
  let ?hs = "[Authorization_Bearer (JStr ''tok-1''), Content_Type ''application/json'']"
  let ?r = "\<lparr>status_code = 404, content = Some JNull\<rparr>"
  have a: "get_toptex_headers data_404 init_state = (Inr ?hs, ?s1)"
    by (simp add: run_defs)
  have b: "upstream data_404 (length (calls ?s1))
             \<lparr>meth = GET, target = Url (TOPTEX_BASE_URL data_404) ''/products'' None,
              headers = ?hs, params = [(''skip'', JNum 0), (''limit'', JNum 50)],
              json_body = None, timeout = 30\<rparr> = Returns ?r"
    by (simp add: data_404_def demo_env_def reply_def)
  have c: "(400::int) \<le> status_code ?r" "status_code ?r < (500::int)"
    by simp_all
  have d: "upstream data_404 1 (products_request data_404 (JStr ''tok-1'') 0 50) = Returns ?r"
    by (simp add: data_404_def demo_env_def reply_def products_request_def)
  show ?thesis
    using endpoint_client_error_single_attempt [OF a b c, of response_json] a d
    by (simp add: get_products_def products_request_def)
qed

text \<open>
  C8 as stated fails: a failure to get the token is not retried. The authentication
  endpoint refuses the connection; \<^verbatim>\<open>get_products\<close>, with its budget of three
  attempts, ends with the 503 of \<^verbatim>\<open>authenticate\<close> after the one authentication call,
  and nothing was slept.
\<close>

theorem get_products_auth_failure_counterexample:
  "fst (get_products auth_down 0 50 init_state) =
     Inl (HTTPException 503 ''Authentication failed: ''
            (Some (RequestException ''connection refused'')))
   \<and> calls (snd (get_products auth_down 0 50 init_state)) = [auth_request auth_down]
   \<and> sleeps (snd (get_products auth_down 0 50 init_state)) = []"
  by (simp add: run_defs)

text \<open>
  C8, as the code has it. When \<^verbatim>\<open>get_toptex_headers\<close> raises in the body of an
  endpoint, the call of the endpoint raises that same exception at once: it is not a
  \<open>RequestException\<close>, so neither the handler of the body nor the decorator catches
  it. The one authentication call is all that was added to the HTTP trace, nothing was
  slept, no request of the endpoint was issued, and the token and the expiry are what
  they were.
\<close>

theorem endpoint_token_failure_not_retried:
  assumes "get_toptex_headers E s = (Inl e, s1)"
  shows "endpoint E m u ps body ret s = (Inl e, s1)
         \<and> \<not> is_RequestException e
         \<and> calls s1 = calls s @ [auth_request E]
         \<and> sleeps s1 = sleeps s
         \<and> token s1 = token s
         \<and> token_expiry s1 = token_expiry s"
proof -
  have g: "get_token E s = (Inl e, s1)"
    using assms by (rule get_toptex_headers_error)
  then have f: "fst (get_token E s) = Inl e" by simp
  have invalid: "\<not> fst (is_token_valid E s)" using f by (rule get_token_error(2))
  have s1: "s1 = (snd (is_token_valid E s))\<lparr>calls := calls s @ [auth_request E]\<rparr>"
    using get_token_error(3) [OF f] g by simp
  show ?thesis
    using get_token_error(1) [OF f] is_token_valid_False [OF invalid]
    by (simp add: endpoint_runs_body_once toptex_call_headers_error [OF assms] s1)
qed

text \<open>At a concrete input: the connection to the authentication endpoint is refused.\<close>

theorem endpoint_token_failure_not_retried_witness:
  "get_toptex_headers auth_down init_state =
     (Inl (auth_failed ''connection refused''), init_state\<lparr>calls := [auth_request auth_down]\<rparr>)
   \<and> get_products auth_down 0 50 init_state =
     (Inl (auth_failed ''connection refused''), init_state\<lparr>calls := [auth_request auth_down]\<rparr>)
   \<and> \<not> is_RequestException (auth_failed ''connection refused'')
   \<and> sleeps (init_state\<lparr>calls := [auth_request auth_down]\<rparr>) = sleeps init_state"
proof -
  have a: "get_toptex_headers auth_down init_state =
     (Inl (auth_failed ''connection refused''), init_state\<lparr>calls := [auth_request auth_down]\<rparr>)"
    by (simp add: run_defs)
  show ?thesis
    using endpoint_token_failure_not_retried
            [OF a, of GET "Url (TOPTEX_BASE_URL auth_down) ''/products'' None"
               "[(''skip'', JNum 0), (''limit'', JNum 50)]" None response_json] a
    by (simp add: get_products_def)
qed

section \<open>The two fields of the credential\<close>

text \<open>
  C7, at an input where the code does not do it. The authentication endpoint answers 200
  with a JSON object that has no \<open>token\<close>. \<^verbatim>\<open>data.get("token")\<close> is
  \<^verbatim>\<open>None\<close>; \<^verbatim>\<open>authenticate\<close>, declared to return a string, stores it, stores
  the expiry after it and returns \<^verbatim>\<open>None\<close>. The state reached, by
  \<^verbatim>\<open>authenticate\<close> itself and by the startup hook alike, holds an expiry and no
  token: one field is present while the other is absent. \<^verbatim>\<open>get_products\<close> in that
  environment sends its request with the header \<^verbatim>\<open>Bearer None\<close>.
\<close>

theorem authenticate_stores_expiry_without_token:
  "fst (authenticate auth_no_token init_state) = Inr JNull
   \<and> token (snd (authenticate auth_no_token init_state)) = JNull
   \<and> token_expiry (snd (authenticate auth_no_token init_state)) = Some 86400000000
   \<and> token (run auth_no_token [Startup_event] init_state) = JNull
   \<and> token_expiry (run auth_no_token [Startup_event] init_state) = Some 86400000000
   \<and> calls (snd (get_products auth_no_token 0 50 init_state)) =
       [auth_request auth_no_token, products_request auth_no_token JNull 0 50]"
  by (simp add: run_defs startup_event_def)

section \<open>The webhook and the health check\<close>

text \<open>
  C9. When \<^verbatim>\<open>WEBHOOK_SECRET\<close> is configured (set and not empty, which is what
  \<^verbatim>\<open>if WEBHOOK_SECRET:\<close> tests) and the header \<^verbatim>\<open>x-odoo-signature\<close> of the request
  is missing or differs from it, \<^verbatim>\<open>from_odoo\<close> raises \<^verbatim>\<open>HTTPException(401)\<close> and the
  state is the one before the call: no HTTP call, no reading of the clock, no change of the
  token.
\<close>

theorem from_odoo_rejects_bad_signature:
  assumes "WEBHOOK_SECRET E = Some secret" and "secret \<noteq> []"
    and "wh_headers req ''x-odoo-signature'' \<noteq> Some secret"
  shows "from_odoo E req s = (Inl (HTTPException 401 ''Unauthorized'' None), s)"
  using assms by (simp add: from_odoo_def verify_webhook_secret_def)

text \<open>
  At concrete inputs: the secret is \<open>s3cret\<close>; one request signs with \<open>guess\<close>, the
  other carries no signature.
\<close>

theorem from_odoo_rejects_bad_signature_witness:
  "WEBHOOK_SECRET all_up = Some ''s3cret''
   \<and> wh_headers forged ''x-odoo-signature'' = Some ''guess''
   \<and> from_odoo all_up forged init_state = (Inl (HTTPException 401 ''Unauthorized'' None), init_state)
   \<and> from_odoo all_up (forged\<lparr>wh_headers := Map.empty\<rparr>) init_state =
       (Inl (HTTPException 401 ''Unauthorized'' None), init_state)"
proof -
  have a: "WEBHOOK_SECRET all_up = Some ''s3cret''"
    by (simp add: all_up_def demo_env_def)
  have b: "''s3cret'' \<noteq> []" by simp
  have c: "wh_headers forged ''x-odoo-signature'' = Some ''guess''"
    by (simp add: forged_def)
  then have c': "wh_headers forged ''x-odoo-signature'' \<noteq> Some ''s3cret''" by simp
  have d: "wh_headers (forged\<lparr>wh_headers := Map.empty\<rparr>) ''x-odoo-signature'' \<noteq> Some ''s3cret''"
    by simp
  show ?thesis
    using from_odoo_rejects_bad_signature [OF a b c', of init_state]
          from_odoo_rejects_bad_signature [OF a b d, of init_state] a c
    by blast
qed

text \<open>
  C10. \<^verbatim>\<open>health_check\<close> returns one of its three status objects in every state and
  whatever the upstream service does, and never raises: \<open>healthy\<close> with \<open>connected\<close>
  or \<open>disconnected\<close> when the probe was answered, \<open>degraded\<close> when the token could
  not be obtained or the probe raised.
\<close>

theorem health_check_total:
  "fst (health_check E s) = Inr (health_status ''healthy'' ''connected'')
   \<or> fst (health_check E s) = Inr (health_status ''healthy'' ''disconnected'')
   \<or> fst (health_check E s) = Inr (health_status ''degraded'' ''disconnected'')"
  by (simp add: health_check_def requests_request_def
      split: prod.splits sum.splits outcome.splits)

section \<open>The decorator by itself\<close>

text \<open>
  Under a function that does raise a \<open>RequestException\<close> at every call, each call
  adding one request to the HTTP trace, the loop makes as many calls as iterations are
  left, sleeps \<open>backoff_factor * 2 ^ attempt\<close> after each but the last, and raises the
  exception of the last: by induction on the iterations left.
\<close>

lemma wrapper_loop_always_failing:
  assumes f: "\<And>s. func s = (Inl (RequestException msg), s\<lparr>calls := calls s @ [rq]\<rparr>)"
    and bf: "0 \<le> bf"
  shows "int a + int (Suc k) = mr \<Longrightarrow>
     wrapper_loop mr bf func a (Suc k) s =
       (Inl (RequestException msg),
        s\<lparr>calls := calls s @ replicate (Suc k) rq,
          sleeps := sleeps s @ map (\<lambda>i. bf * 2 ^ i) [a..<a + k]\<rparr>)"
proof (induction k arbitrary: a s)
  case 0
  then have "int a = mr - 1" by simp
  then show ?case by (simp add: f)
next
  case (Suc k)
  then have last: "int a \<noteq> mr - 1" and next_attempt: "int (Suc a) + int (Suc k) = mr"
    by simp_all
  have nonneg: "\<not> bf * 2 ^ a < 0"
    using bf by (simp add: not_less)
  let ?s1 = "s\<lparr>calls := calls s @ [rq], sleeps := sleeps s @ [bf * 2 ^ a]\<rparr>"
  have one: "wrapper_loop mr bf func a (Suc (Suc k)) s =
      wrapper_loop mr bf func (Suc a) (Suc k) ?s1"
    by (subst wrapper_loop.simps(2))
       (simp add: f time_sleep_def last nonneg del: wrapper_loop.simps)
  have rest: "wrapper_loop mr bf func (Suc a) (Suc k) ?s1 =
      (Inl (RequestException msg),
       ?s1\<lparr>calls := calls ?s1 @ replicate (Suc k) rq,
           sleeps := sleeps ?s1 @ map (\<lambda>i. bf * 2 ^ i) [Suc a..<Suc a + k]\<rparr>)"
    by (rule Suc.IH [OF next_attempt])
  have upt: "[a..<a + Suc k] = a # [Suc a..<Suc a + k]"
    by (simp add: upt_conv_Cons)
  have same: "?s1\<lparr>calls := calls ?s1 @ replicate (Suc k) rq,
           sleeps := sleeps ?s1 @ map (\<lambda>i. bf * 2 ^ i) [Suc a..<Suc a + k]\<rparr> =
      s\<lparr>calls := calls s @ replicate (Suc (Suc k)) rq,
        sleeps := sleeps s @ map (\<lambda>i. bf * 2 ^ i) [a..<a + Suc k]\<rparr>"
    unfolding upt by simp
  show ?case
    unfolding one rest same ..
qed

text \<open>
  The decorator alone keeps its promise. With a positive \<^verbatim>\<open>max_retries\<close> and a
  \<^verbatim>\<open>backoff_factor\<close> that is not negative, a function that raises a
  \<open>RequestException\<close> at every call is called exactly \<^verbatim>\<open>max_retries\<close> times, the
  sleeps are \<open>backoff_factor * 2 ^ i\<close> for \<open>i\<close> from 0 to \<^verbatim>\<open>max_retries - 2\<close>, in
  that order, and the exception of the last call is raised.
\<close>

theorem retry_with_backoff_exhausts_budget:
  assumes "\<And>s. func s = (Inl (RequestException msg), s\<lparr>calls := calls s @ [rq]\<rparr>)"
    and "0 \<le> bf" and "0 < mr"
  shows "retry_with_backoff mr bf func s =
     (Inl (RequestException msg),
      s\<lparr>calls := calls s @ replicate (nat mr) rq,
        sleeps := sleeps s @ map (\<lambda>i. bf * 2 ^ i) [0..<nat mr - 1]\<rparr>)"
proof -
  obtain k where k: "nat mr = Suc k"
    using assms(3) by (cases "nat mr") simp_all
  then have total: "int 0 + int (Suc k) = mr"
    using assms(3) by (metis add_0 int_ops(1) nat_0_le less_imp_le)
  show ?thesis
    using wrapper_loop_always_failing [OF assms(1,2) total, of s]
    by (simp add: retry_with_backoff_def k)
qed

text \<open>At a concrete input: the defaults, three attempts, sleeps of 1 and 2.\<close>

theorem retry_with_backoff_exhausts_budget_witness:
  "retry_with_backoff 3 1 (always_failing (products_request all_up (JStr ''tok-1'') 0 50))
     init_state =
     (Inl (RequestException ''boom''),
      init_state\<lparr>calls := replicate 3 (products_request all_up (JStr ''tok-1'') 0 50),
                 sleeps := [1, 2]\<rparr>)"
proof -
  have a: "\<And>s. always_failing (products_request all_up (JStr ''tok-1'') 0 50) s =
      (Inl (RequestException ''boom''),
       s\<lparr>calls := calls s @ [products_request all_up (JStr ''tok-1'') 0 50]\<rparr>)"
    by (simp add: always_failing_def)
  have b: "(0::int) \<le> 1" and c: "(0::int) < 3" by simp_all
  have d: "map (\<lambda>i. (1::int) * 2 ^ i) [0..<3 - 1] = [1, 2]"
    by (simp add: numeral_2_eq_2 upt_conv_Cons)
  have e: "calls init_state = []" "sleeps init_state = []"
    by (simp_all add: init_state_def)
  have n: "nat 3 = 3" by simp
  show ?thesis
    using retry_with_backoff_exhausts_budget [OF a b c, of init_state]
    unfolding e n append_Nil d .
qed

text \<open>
  Under each endpoint the decorator never retries: a call of the endpoint is one run of
  its body, and nothing is slept.
\<close>

theorem endpoint_never_retries:
  "endpoint E m u ps body ret s = toptex_call E m u ps body ret s
   \<and> sleeps (snd (endpoint E m u ps body ret s)) = sleeps s"
  by (simp add: endpoint_runs_body_once toptex_call_credential(3))

end
